theory Spec2Isabelle
  imports Main "HOL-Library.Sublist" "HOL-Library.Monad_Syntax"
begin

section \<open>Strings\<close>

text \<open>
  Strings are lists of characters. A character stands for a code unit below 256, which
  is where the menu texts, search terms and calendar texts of this development live.
  \<open>toLowerCase\<close> is \<^verbatim>\<open>String.prototype.toLowerCase\<close> on that range: the ASCII capitals
  and the Latin-1 capitals (192 to 222, without the multiplication sign 215) move up
  by 32, every other character stays.
\<close>

definition toLowerChar :: "char \<Rightarrow> char" where
  "toLowerChar c =
     (let n = (of_char c :: nat) in
      if (65 \<le> n \<and> n \<le> 90) \<or> (192 \<le> n \<and> n \<le> 222 \<and> n \<noteq> 215)
      then char_of (n + 32) else c)"

definition toLowerCase :: "string \<Rightarrow> string" where
  "toLowerCase s = map toLowerChar s"

text \<open>\<^verbatim>\<open>s.startsWith(t)\<close> and \<^verbatim>\<open>s.includes(t)\<close> (here \<open>includes_str\<close>): a scan over the start positions of \<open>s\<close>.\<close>

fun startsWith :: "string \<Rightarrow> string \<Rightarrow> bool" where
  "startsWith s [] = True"
| "startsWith [] (y # ys) = False"
| "startsWith (x # xs) (y # ys) = (x = y \<and> startsWith xs ys)"

fun includes_str :: "string \<Rightarrow> string \<Rightarrow> bool" where
  "includes_str [] t = (t = [])"
| "includes_str (x # xs) t = (startsWith (x # xs) t \<or> includes_str xs t)"

section \<open>The ordering driver: item matching\<close>

text \<open>
  \<^verbatim>\<open>
  function isItemMatch(itemText: string, searchTerm: string): boolean {
    const normalizedItem = itemText.toLowerCase();
    const normalizedSearch = searchTerm.toLowerCase();
    return normalizedItem.includes(normalizedSearch) ||
           normalizedSearch.includes(normalizedItem);
  }
  \<close>
\<close>

definition isItemMatch :: "string \<Rightarrow> string \<Rightarrow> bool" where
  "isItemMatch itemText searchTerm =
     (let normalizedItem = toLowerCase itemText;
          normalizedSearch = toLowerCase searchTerm
      in includes_str normalizedItem normalizedSearch \<or> includes_str normalizedSearch normalizedItem)"

section \<open>Regular expressions of the shape \<^verbatim>\<open>\b(w1|...|wn)\b\<close>\<close>

text \<open>
  Every pattern of \<^verbatim>\<open>suggestColorId\<close> is an alternation of literal words between two
  \<^verbatim>\<open>\b\<close> assertions, without flags. \<^verbatim>\<open>\w\<close> is \<^verbatim>\<open>[A-Za-z0-9_]\<close>; \<^verbatim>\<open>\b\<close> holds at
  position \<open>p\<close> when exactly one of the characters at \<open>p - 1\<close> and \<open>p\<close> is a word
  character, a position outside the text counting as no word character. The pattern
  matches when some alternative fits at some position with both assertions (the
  engine backtracks over positions and alternatives, so any fitting pair is found).
\<close>

definition isWordChar :: "char \<Rightarrow> bool" where
  "isWordChar c =
     (let n = (of_char c :: nat) in
      (48 \<le> n \<and> n \<le> 57) \<or> (65 \<le> n \<and> n \<le> 90) \<or> n = 95 \<or> (97 \<le> n \<and> n \<le> 122))"

definition wordBoundary :: "string \<Rightarrow> nat \<Rightarrow> bool" where
  "wordBoundary text p =
     ((0 < p \<and> p \<le> length text \<and> isWordChar (text ! (p - 1)))
        \<noteq> (p < length text \<and> isWordChar (text ! p)))"

definition matchesAt :: "string list \<Rightarrow> string \<Rightarrow> nat \<Rightarrow> bool" where
  "matchesAt ws text p =
     list_ex (\<lambda>w. wordBoundary text p \<and> take (length w) (drop p text) = w
                  \<and> wordBoundary text (p + length w)) ws"

definition regexTest :: "string list \<Rightarrow> string \<Rightarrow> bool" where
  "regexTest ws text = list_ex (matchesAt ws text) [0..<Suc (length text)]"

section \<open>The calendar server: colour suggestion\<close>

definition workWords :: "string list" where
  "workWords = [''work'', ''meeting'', ''call'', ''conference'', ''deadline'', ''project'',
     ''client'', ''business'', ''office'', ''interview'', ''presentation'', ''review'',
     ''standup'', ''sprint'', ''team'', ''manager'', ''boss'', ''hr'', ''hrs'']"

definition meetingWords :: "string list" where
  "meetingWords = [''meeting'', ''call'', ''conference'', ''standup'', ''presentation'']"

definition urgentWords :: "string list" where
  "urgentWords = [''deadline'', ''urgent'', ''important'', ''critical'']"

definition socialWords :: "string list" where
  "socialWords = [''party'', ''social'', ''fun'', ''celebration'', ''birthday'',
     ''anniversary'', ''date'', ''romantic'', ''dinner'', ''movie'', ''show'', ''concert'',
     ''game'', ''gaming'', ''friends'', ''hangout'', ''drinks'', ''club'', ''bar'']"

definition romanticWords :: "string list" where
  "romanticWords = [''date'', ''romantic'', ''anniversary'', ''valentine'']"

definition entertainmentWords :: "string list" where
  "entertainmentWords = [''movie'', ''show'', ''concert'', ''entertainment'', ''theater'']"

definition healthWords :: "string list" where
  "healthWords = [''gym'', ''workout'', ''exercise'', ''fitness'', ''run'', ''running'',
     ''yoga'', ''pilates'', ''swim'', ''cycling'', ''doctor'', ''medical'', ''appointment'',
     ''therapy'', ''dentist'', ''checkup'', ''health'', ''wellness'', ''massage'', ''spa'']"

definition medicalWords :: "string list" where
  "medicalWords = [''doctor'', ''medical'', ''appointment'', ''therapy'', ''dentist'',
     ''checkup'', ''health'']"

definition learningWords :: "string list" where
  "learningWords = [''study'', ''class'', ''course'', ''lesson'', ''workshop'', ''training'',
     ''seminar'', ''lecture'', ''school'', ''university'', ''college'', ''exam'', ''test'',
     ''homework'', ''assignment'', ''learning'', ''education'', ''book'', ''reading'']"

definition workshopWords :: "string list" where
  "workshopWords = [''workshop'', ''conference'', ''seminar'', ''training'']"

definition travelWords :: "string list" where
  "travelWords = [''travel'', ''trip'', ''vacation'', ''flight'', ''airport'', ''hotel'',
     ''booking'', ''reservation'', ''holiday'', ''getaway'']"

text \<open>
  \<^verbatim>\<open>const text = `${summary} ${description || ''}`.toLowerCase();\<close>
  An absent description and an empty one both contribute nothing.
\<close>

definition colorText :: "string \<Rightarrow> string option \<Rightarrow> string" where
  "colorText summary description =
     toLowerCase (summary @ '' '' @ (case description of None \<Rightarrow> [] | Some d \<Rightarrow> d))"

definition suggestColorId :: "string \<Rightarrow> string option \<Rightarrow> string" where
  "suggestColorId summary description =
     (let text = colorText summary description in
      if regexTest workWords text then
        (if regexTest meetingWords text then ''7''
         else if regexTest urgentWords text then ''8''
         else ''9'')
      else if regexTest socialWords text then
        (if regexTest romanticWords text then ''11''
         else if regexTest entertainmentWords text then ''3''
         else ''4'')
      else if regexTest healthWords text then
        (if regexTest medicalWords text then ''2''
         else ''10'')
      else if regexTest learningWords text then
        (if regexTest workshopWords text then ''6''
         else ''5'')
      else if regexTest travelWords text then ''7''
      else ''1'')"

text \<open>
  The palette of the calendar, as the chat client documents it: the ids \<^verbatim>\<open>"1"\<close> to
  \<^verbatim>\<open>"11"\<close> with their colour names.
\<close>

definition palette :: "(string \<times> string) list" where
  "palette =
     [(''1'', ''Lavender''), (''2'', ''Sage''), (''3'', ''Grape''), (''4'', ''Flamingo''),
      (''5'', ''Banana''), (''6'', ''Tangerine''), (''7'', ''Peacock''), (''8'', ''Graphite''),
      (''9'', ''Blueberry''), (''10'', ''Basil''), (''11'', ''Tomato'')]"

definition colorIds :: "string list" where
  "colorIds = map fst palette"

section \<open>Exceptions\<close>

text \<open>
  A thrown value is an \<^verbatim>\<open>Error\<close> object (its name, its message and, for an HTTP error of
  the Google client, the status and body of the \<^verbatim>\<open>response\<close> property) or a primitive
  value, kept as its \<^verbatim>\<open>String()\<close> rendering. A computation that may throw returns
  \<open>thrown + 'a\<close>, with \<open>Inl\<close> for the exception.
\<close>

datatype thrown =
    JsError string string "(int \<times> string) option"
  | Thrown string

definition typeError :: "string \<Rightarrow> thrown" where
  "typeError msg = JsError ''TypeError'' msg None"

text \<open>\<^verbatim>\<open>String(error)\<close>, after \<^verbatim>\<open>Error.prototype.toString\<close>.\<close>

fun errorString :: "thrown \<Rightarrow> string" where
  "errorString (JsError nm msg r) =
     (if nm = [] then msg else if msg = [] then nm else nm @ '': '' @ msg)"
| "errorString (Thrown v) = v"

text \<open>\<^verbatim>\<open>error instanceof Error ? error.message : String(error)\<close>\<close>

fun messageOf :: "thrown \<Rightarrow> string" where
  "messageOf (JsError nm msg r) = msg"
| "messageOf (Thrown v) = v"

text \<open>\<^verbatim>\<open>`${error.message || error}`\<close>: an empty or missing message falls back to the value.\<close>

fun messageOrValue :: "thrown \<Rightarrow> string" where
  "messageOrValue (JsError nm msg r) = (if msg \<noteq> [] then msg else errorString (JsError nm msg r))"
| "messageOrValue (Thrown v) = v"

section \<open>Truthiness of optional strings\<close>

text \<open>
  A value of type \<^verbatim>\<open>string | null | undefined\<close> is a \<open>string option\<close>; it is truthy when
  it is a non-empty string. \<open>orElse a b\<close> is \<^verbatim>\<open>a || b\<close> between two such values and
  \<open>orDefault a d\<close> is \<^verbatim>\<open>a || d\<close> with a string \<open>d\<close>.
\<close>

definition truthy :: "string option \<Rightarrow> bool" where
  "truthy a = (case a of None \<Rightarrow> False | Some v \<Rightarrow> v \<noteq> [])"

definition orElse :: "string option \<Rightarrow> string option \<Rightarrow> string option" where
  "orElse a b = (if truthy a then a else b)"

definition orDefault :: "string option \<Rightarrow> string \<Rightarrow> string" where
  "orDefault a d = (case a of None \<Rightarrow> d | Some v \<Rightarrow> if v \<noteq> [] then v else d)"

text \<open>Decimal rendering of a number inside a template string.\<close>

fun showNat :: "nat \<Rightarrow> string" where
  "showNat n = (if n < 10 then [char_of (48 + n)] else showNat (n div 10) @ [char_of (48 + n mod 10)])"

declare showNat.simps [simp del]

section \<open>The ordering driver: state and environment\<close>

text \<open>
  The module keeps two variables, \<^verbatim>\<open>browser\<close> and \<^verbatim>\<open>page\<close>, both \<^verbatim>\<open>null\<close> at start.
  The state below adds three history fields, which the code does not hold: the number of
  calls of \<^verbatim>\<open>chromium.launch\<close>, the sessions those calls created, and the number of calls
  of \<^verbatim>\<open>page.goto\<close>.
\<close>

type_synonym handle = nat

record driver =
  browser :: "handle option"
  page :: "handle option"
  launches :: nat
  sessions :: "handle list"
  navigations :: nat

definition initialDriver :: driver where
  "initialDriver = \<lparr>browser = None, page = None, launches = 0, sessions = [], navigations = 0\<rparr>"

text \<open>
  What the outside world answers during one public operation. Each field is the
  outcome of one awaited call: the value it resolves to, or the exception it rejects
  with. An element of the page answers for its two attributes, its text and a click.
  \<open>modalBody\<close> is the joint outcome of the steps inside the \<^verbatim>\<open>try\<close> block of
  \<^verbatim>\<open>handleOrderModal\<close> (modal wait, delivery and update buttons, address form).
\<close>

record element =
  item_name :: "thrown + string option"
  item_price :: "thrown + string option"
  textContent :: "thrown + string option"
  click :: "thrown + unit"

record env =
  OUT_DIR :: string
  mkdir :: "thrown + unit"
  launch :: "thrown + handle"
  newContext :: "thrown + unit"
  newPage :: "thrown + handle"
  goto :: "thrown + unit"
  settle :: "thrown + unit"
  locatorAll :: "string \<Rightarrow> thrown + element list"
  modalBody :: "thrown + unit"
  now :: nat
  screenshot :: "string \<Rightarrow> thrown + unit"

record OrderResult =
  success :: bool
  itemName :: string
  quantity :: int
  found :: bool
  screenshotPath :: string
  error :: "string option"
  clickedElement :: "string option"

record MenuItem =
  mi_name :: string
  mi_price :: string
  mi_description :: "string option"
  mi_category :: "string option"
  mi_available :: bool

record CartContents =
  items :: "string list"
  total :: string
  itemCount :: int

record ClearResult =
  cl_success :: bool
  cl_message :: string

record CheckoutResult =
  co_success :: bool
  co_message :: string
  co_screenshot :: string

record ClickResult =
  cr_success :: bool
  cr_found :: bool
  cr_error :: "string option"
  cr_clickedElement :: "string option"

section \<open>The ordering driver: operations\<close>

text \<open>
  \<^verbatim>\<open>
  async function initBrowser(): Promise<void> {
    if (!browser) {
      browser = await chromium.launch({ headless: false, slowMo: 150 });
      const context = await browser.newContext();
      page = await context.newPage();
      await page.goto(TARGET_URL, { waitUntil: "domcontentloaded", timeout: 30_000 });
      await page.waitForTimeout(3000);
    }
  }
  \<close>
  An exception leaves the assignments made before it in place.
\<close>

definition initBrowser :: "env \<Rightarrow> driver \<Rightarrow> (thrown + unit) \<times> driver" where
  "initBrowser e s =
     (case browser s of
        Some b \<Rightarrow> (Inr (), s)
      | None \<Rightarrow>
          (let s0 = s\<lparr>launches := Suc (launches s)\<rparr> in
           case launch e of
             Inl x \<Rightarrow> (Inl x, s0)
           | Inr b \<Rightarrow>
               (let s1 = s0\<lparr>browser := Some b, sessions := sessions s0 @ [b]\<rparr> in
                case newContext e of
                  Inl x \<Rightarrow> (Inl x, s1)
                | Inr _ \<Rightarrow>
                    (case newPage e of
                       Inl x \<Rightarrow> (Inl x, s1)
                     | Inr pg \<Rightarrow>
                         (let s2 = s1\<lparr>page := Some pg, navigations := Suc (navigations s1)\<rparr> in
                          case goto e of
                            Inl x \<Rightarrow> (Inl x, s2)
                          | Inr _ \<Rightarrow>
                              (case settle e of
                                 Inl x \<Rightarrow> (Inl x, s2)
                               | Inr _ \<Rightarrow> (Inr (), s2)))))))"

text \<open>
  \<^verbatim>\<open>takeScreenshot(page, name)\<close>: the path is \<^verbatim>\<open>OUT_DIR/name-timestamp.png\<close>; a call on
  the \<^verbatim>\<open>null\<close> page is a \<^verbatim>\<open>TypeError\<close>.
\<close>

definition screenshotFile :: "env \<Rightarrow> string \<Rightarrow> string" where
  "screenshotFile e nm = OUT_DIR e @ ''/'' @ nm @ ''-'' @ showNat (now e) @ ''.png''"

definition takeScreenshot :: "env \<Rightarrow> handle option \<Rightarrow> string \<Rightarrow> thrown + string" where
  "takeScreenshot e pg nm =
     (let filepath = screenshotFile e nm in
      case pg of
        None \<Rightarrow> Inl (typeError ''Cannot read properties of null (reading 'screenshot')'')
      | Some _ \<Rightarrow>
          (case screenshot e filepath of
             Inl x \<Rightarrow> Inl x
           | Inr _ \<Rightarrow> Inr filepath))"

definition itemSelectors :: "string list" where
  "itemSelectors = [''new-menufy-item-card'', ''.item-wrapper'', ''.item-link'',
     ''[item-name]'', ''div[class*='item']'']"

definition menuSelectors :: "string list" where
  "menuSelectors = [''new-menufy-item-card'', ''.item-wrapper'', ''.item-link'',
     ''[item-name]'']"

text \<open>The selector loop: the first selector with at least one element gives the items.\<close>

fun firstNonEmpty :: "env \<Rightarrow> string list \<Rightarrow> thrown + element list" where
  "firstNonEmpty e [] = Inr []"
| "firstNonEmpty e (selector # rest) =
     (case locatorAll e selector of
        Inl x \<Rightarrow> Inl x
      | Inr elements \<Rightarrow> if length elements > 0 then Inr elements else firstNonEmpty e rest)"

text \<open>\<^verbatim>\<open>name || text || ""\<close>, the text an element is matched by.\<close>

definition candidateText :: "string option \<Rightarrow> string option \<Rightarrow> string" where
  "candidateText nm txt = orDefault (orElse nm txt) []"

definition notFoundMessage :: "string \<Rightarrow> string" where
  "notFoundMessage nm = ''Item '' @ [CHR 0x22] @ nm @ [CHR 0x22] @ '' not found on the menu''"

text \<open>
  The search loop of \<^verbatim>\<open>findAndClickItem\<close>: reading an attribute or the text may throw
  (and leaves the function); a failed click is caught and the loop goes on. The
  elements are locator objects, so the test \<^verbatim>\<open>if (item)\<close> always holds.
\<close>

fun searchItems :: "element list \<Rightarrow> string \<Rightarrow> thrown + ClickResult" where
  "searchItems [] nm =
     Inr \<lparr>cr_success = False, cr_found = False, cr_error = Some (notFoundMessage nm),
          cr_clickedElement = None\<rparr>"
| "searchItems (item # rest) nm =
     (case item_name item of
        Inl x \<Rightarrow> Inl x
      | Inr name \<Rightarrow>
          (case textContent item of
             Inl x \<Rightarrow> Inl x
           | Inr txt \<Rightarrow>
               if isItemMatch (candidateText name txt) nm then
                 (case click item of
                    Inr _ \<Rightarrow>
                      Inr \<lparr>cr_success = True, cr_found = True, cr_error = None,
                           cr_clickedElement = Some (orDefault (orElse name txt) ''Unknown'')\<rparr>
                  | Inl _ \<Rightarrow> searchItems rest nm)
               else searchItems rest nm))"

definition findAndClickItem :: "env \<Rightarrow> handle option \<Rightarrow> string \<Rightarrow> thrown + ClickResult" where
  "findAndClickItem e pg nm =
     (case pg of
        None \<Rightarrow> Inl (typeError ''Cannot read properties of null (reading 'locator')'')
      | Some _ \<Rightarrow>
          (case firstNonEmpty e itemSelectors of
             Inl x \<Rightarrow> Inl x
           | Inr menuItems \<Rightarrow>
               if length menuItems = 0 then
                 Inr \<lparr>cr_success = False, cr_found = False,
                      cr_error = Some ''No menu items found on the page'',
                      cr_clickedElement = None\<rparr>
               else searchItems menuItems nm))"

text \<open>
  \<^verbatim>\<open>handleOrderModal\<close> wraps all its steps in \<^verbatim>\<open>try { ... } catch (error) { console.log(...) }\<close>:
  whatever the steps do, the function returns.
\<close>

definition handleOrderModal :: "env \<Rightarrow> handle option \<Rightarrow> thrown + unit" where
  "handleOrderModal e pg =
     (case (case pg of
              None \<Rightarrow> Inl (typeError ''Cannot read properties of null (reading 'waitForSelector')'')
            | Some _ \<Rightarrow> modalBody e) of
        Inl _ \<Rightarrow> Inr ()
      | Inr _ \<Rightarrow> Inr ())"

text \<open>The \<^verbatim>\<open>try\<close> block of \<^verbatim>\<open>orderFoodItem\<close>.\<close>

definition orderTry :: "env \<Rightarrow> handle option \<Rightarrow> string \<Rightarrow> int \<Rightarrow> thrown + OrderResult" where
  "orderTry e pg nm qty =
     (case findAndClickItem e pg nm of
        Inl x \<Rightarrow> Inl x
      | Inr result \<Rightarrow>
          (case (if cr_success result then handleOrderModal e pg else Inr ()) of
             Inl x \<Rightarrow> Inl x
           | Inr _ \<Rightarrow>
               (case takeScreenshot e pg ''item-clicked'' of
                  Inl x \<Rightarrow> Inl x
                | Inr shot \<Rightarrow>
                    Inr \<lparr>success = cr_success result, itemName = nm, quantity = qty,
                         found = cr_found result, screenshotPath = shot,
                         error = (if truthy (cr_error result) then cr_error result else None),
                         clickedElement =
                           (if truthy (cr_clickedElement result) then cr_clickedElement result
                            else None)\<rparr>)))"

text \<open>The \<^verbatim>\<open>catch\<close> block of \<^verbatim>\<open>orderFoodItem\<close>: its screenshot is not guarded.\<close>

definition orderCatch :: "env \<Rightarrow> handle option \<Rightarrow> string \<Rightarrow> int \<Rightarrow> thrown \<Rightarrow> thrown + OrderResult" where
  "orderCatch e pg nm qty err =
     (case takeScreenshot e pg ''click-error'' of
        Inl x \<Rightarrow> Inl x
      | Inr shot \<Rightarrow>
          Inr \<lparr>success = False, itemName = nm, quantity = qty, found = False,
               screenshotPath = shot, error = Some (messageOf err), clickedElement = None\<rparr>)"

text \<open>
  \<^verbatim>\<open>
  export async function orderFoodItem(itemName, quantity = 1, customizations?) {
    await fs.mkdir(OUT_DIR, { recursive: true });
    await initBrowser();
    try { ... } catch (error) { ... }
  }
  \<close>
  The directory and the browser session are set up before the \<^verbatim>\<open>try\<close> block.
  \<^verbatim>\<open>customizations\<close> is not read; the default of \<^verbatim>\<open>quantity\<close> is applied by the caller.
\<close>

definition orderFoodItem ::
  "env \<Rightarrow> string \<Rightarrow> int \<Rightarrow> (string \<rightharpoonup> string) option \<Rightarrow> driver \<Rightarrow> (thrown + OrderResult) \<times> driver" where
  "orderFoodItem e nm qty customizations s =
     (case mkdir e of
        Inl x \<Rightarrow> (Inl x, s)
      | Inr _ \<Rightarrow>
          (case initBrowser e s of
             (Inl x, s') \<Rightarrow> (Inl x, s')
           | (Inr _, s') \<Rightarrow>
               (case orderTry e (page s') nm qty of
                  Inr r \<Rightarrow> (Inr r, s')
                | Inl err \<Rightarrow> (orderCatch e (page s') nm qty err, s'))))"

text \<open>
  \<^verbatim>\<open>getMenuItems\<close>: the same selector loop over four selectors, then one menu item for
  each element with a truthy \<^verbatim>\<open>item-name\<close> attribute.
\<close>

fun collectItems :: "element list \<Rightarrow> thrown + MenuItem list" where
  "collectItems [] = Inr []"
| "collectItems (item # rest) =
     (case item_name item of
        Inl x \<Rightarrow> Inl x
      | Inr name \<Rightarrow>
          (case item_price item of
             Inl x \<Rightarrow> Inl x
           | Inr price \<Rightarrow>
               (case textContent item of
                  Inl x \<Rightarrow> Inl x
                | Inr description \<Rightarrow>
                    (case collectItems rest of
                       Inl x \<Rightarrow> Inl x
                     | Inr others \<Rightarrow>
                         (case name of
                            None \<Rightarrow> Inr others
                          | Some n \<Rightarrow>
                              if n = [] then Inr others
                              else Inr (\<lparr>mi_name = n, mi_price = orDefault price ''0.00'',
                                         mi_description = map_option (take 100) description,
                                         mi_category = Some ''Unknown'',
                                         mi_available = True\<rparr> # others))))))"

definition getMenuItems :: "env \<Rightarrow> handle option \<Rightarrow> thrown + MenuItem list" where
  "getMenuItems e pg =
     (case pg of
        None \<Rightarrow> Inl (typeError ''Cannot read properties of null (reading 'locator')'')
      | Some _ \<Rightarrow>
          (case firstNonEmpty e menuSelectors of
             Inl x \<Rightarrow> Inl x
           | Inr menuItems \<Rightarrow> collectItems menuItems))"

definition searchFilter :: "string \<Rightarrow> MenuItem \<Rightarrow> bool" where
  "searchFilter search item =
     (includes_str (toLowerCase (mi_name item)) (toLowerCase search)
      \<or> (case mi_description item of
            None \<Rightarrow> False
          | Some d \<Rightarrow> includes_str (toLowerCase d) (toLowerCase search)))"

text \<open>
  \<^verbatim>\<open>browseMenu(category?, search?)\<close>: \<^verbatim>\<open>initBrowser\<close> runs before the \<^verbatim>\<open>try\<close> block; an
  exception inside the block gives the empty list. \<^verbatim>\<open>category\<close> is only logged.
\<close>

definition browseMenu ::
  "env \<Rightarrow> string option \<Rightarrow> string option \<Rightarrow> driver \<Rightarrow> (thrown + MenuItem list) \<times> driver" where
  "browseMenu e category search s =
     (case initBrowser e s of
        (Inl x, s') \<Rightarrow> (Inl x, s')
      | (Inr _, s') \<Rightarrow>
          (case getMenuItems e (page s') of
             Inl _ \<Rightarrow> (Inr [], s')
           | Inr menuItems \<Rightarrow>
               (Inr (if truthy search
                     then filter (searchFilter (orDefault search [])) menuItems
                     else menuItems), s')))"

text \<open>
  The three stubs log one line and return a constant; they read and write no state.
  \<^verbatim>\<open>
  export async function getCartContents(): Promise<CartContents> {
    return { items: ["Cart functionality not implemented yet"], total: "0.00", itemCount: 0 };
  }
  export async function clearCart(): Promise<{ success: boolean; message: string }> {
    return { success: false, message: "Cart clearing not implemented yet" };
  }
  export async function proceedToCheckout() {
    return { success: false, message: "Checkout not implemented yet",
             screenshot: "no-screenshot.png" };
  }
  \<close>
\<close>

definition getCartContents :: "driver \<Rightarrow> (thrown + CartContents) \<times> driver" where
  "getCartContents s =
     (Inr \<lparr>items = [''Cart functionality not implemented yet''], total = ''0.00'',
           itemCount = 0\<rparr>, s)"

definition clearCart :: "driver \<Rightarrow> (thrown + ClearResult) \<times> driver" where
  "clearCart s =
     (Inr \<lparr>cl_success = False, cl_message = ''Cart clearing not implemented yet''\<rparr>, s)"

definition proceedToCheckout :: "driver \<Rightarrow> (thrown + CheckoutResult) \<times> driver" where
  "proceedToCheckout s =
     (Inr \<lparr>co_success = False, co_message = ''Checkout not implemented yet'',
           co_screenshot = ''no-screenshot.png''\<rparr>, s)"

subsection \<open>Sequences of public operations\<close>

datatype operation =
    OrderFoodItem string int "(string \<rightharpoonup> string) option"
  | BrowseMenu "string option" "string option"
  | GetCartContents
  | ClearCart
  | ProceedToCheckout

text \<open>The state after one operation, whether it returned or threw.\<close>

fun step :: "env \<Rightarrow> operation \<Rightarrow> driver \<Rightarrow> driver" where
  "step e (OrderFoodItem nm qty cust) s = snd (orderFoodItem e nm qty cust s)"
| "step e (BrowseMenu category search) s = snd (browseMenu e category search s)"
| "step e GetCartContents s = snd (getCartContents s)"
| "step e ClearCart s = snd (clearCart s)"
| "step e ProceedToCheckout s = snd (proceedToCheckout s)"

text \<open>Operations run one after the other, each against its own answers of the world.\<close>

fun run :: "(env \<times> operation) list \<Rightarrow> driver \<Rightarrow> driver" where
  "run [] s = s"
| "run ((e, oper) # rest) s = run rest (step e oper s)"

section \<open>JSON values\<close>

text \<open>
  Tool arguments arrive as a JSON object and results leave through \<^verbatim>\<open>JSON.stringify\<close>.
  Numbers are integers here. An object is the list of its properties in order; a
  property whose value is \<^verbatim>\<open>undefined\<close> is not in the list.
\<close>

datatype json =
    JNull
  | JBool bool
  | JNum int
  | JStr string
  | JArr "json list"
  | JObj "(string \<times> json) list"

text \<open>The properties of the three stub results, as the tool handlers serialise them.\<close>

definition CartContents_props :: "CartContents \<Rightarrow> (string \<times> json) list" where
  "CartContents_props c =
     [(''items'', JArr (map JStr (items c))), (''total'', JStr (total c)),
      (''itemCount'', JNum (itemCount c))]"

definition ClearResult_props :: "ClearResult \<Rightarrow> (string \<times> json) list" where
  "ClearResult_props c = [(''success'', JBool (cl_success c)), (''message'', JStr (cl_message c))]"

definition CheckoutResult_props :: "CheckoutResult \<Rightarrow> (string \<times> json) list" where
  "CheckoutResult_props c =
     [(''success'', JBool (co_success c)), (''message'', JStr (co_message c)),
      (''screenshot'', JStr (co_screenshot c))]"

text \<open>Truthiness, property access and \<^verbatim>\<open>||\<close> on JSON values (\<open>None\<close> is \<^verbatim>\<open>undefined\<close>).\<close>

fun jtruthy :: "json option \<Rightarrow> bool" where
  "jtruthy None = False"
| "jtruthy (Some JNull) = False"
| "jtruthy (Some (JBool b)) = b"
| "jtruthy (Some (JNum n)) = (n \<noteq> 0)"
| "jtruthy (Some (JStr v)) = (v \<noteq> [])"
| "jtruthy (Some (JArr vs)) = True"
| "jtruthy (Some (JObj ps)) = True"

definition jor :: "json option \<Rightarrow> json option \<Rightarrow> json option" where
  "jor a b = (if jtruthy a then a else b)"

fun getProp :: "string \<Rightarrow> json option \<Rightarrow> json option" where
  "getProp k (Some (JObj ps)) = map_of ps k"
| "getProp k _ = None"

text \<open>An object literal: the properties with a defined value, in the order written.\<close>

definition objectLit :: "(string \<times> json option) list \<Rightarrow> json" where
  "objectLit ps = JObj (List.map_filter (\<lambda>(k, v). map_option (Pair k) v) ps)"

section \<open>The calendar server: argument schemas\<close>

text \<open>
  The zod schemas, read off an argument object \<open>args\<close>. A reader returns \<open>None\<close> when
  zod rejects the value. \<^verbatim>\<open>z.string().email()\<close> is a check of zod itself and is taken as
  the parameter \<open>isEmail\<close>.
\<close>

definition zString :: "json option \<Rightarrow> string option" where
  "zString v = (case v of Some (JStr x) \<Rightarrow> Some x | _ \<Rightarrow> None)"

definition zStringOptional :: "json option \<Rightarrow> string option option" where
  "zStringOptional v = (case v of None \<Rightarrow> Some None | Some (JStr x) \<Rightarrow> Some (Some x) | _ \<Rightarrow> None)"

definition zStringDefault :: "string \<Rightarrow> json option \<Rightarrow> string option" where
  "zStringDefault d v = (case v of None \<Rightarrow> Some d | Some (JStr x) \<Rightarrow> Some x | _ \<Rightarrow> None)"

definition zNumberDefault :: "int \<Rightarrow> json option \<Rightarrow> int option" where
  "zNumberDefault d v = (case v of None \<Rightarrow> Some d | Some (JNum n) \<Rightarrow> Some n | _ \<Rightarrow> None)"

definition zBooleanDefault :: "bool \<Rightarrow> json option \<Rightarrow> bool option" where
  "zBooleanDefault d v = (case v of None \<Rightarrow> Some d | Some (JBool b) \<Rightarrow> Some b | _ \<Rightarrow> None)"

definition zEnumDefault :: "string list \<Rightarrow> string \<Rightarrow> json option \<Rightarrow> string option" where
  "zEnumDefault vals d v =
     (case v of
        None \<Rightarrow> Some d
      | Some (JStr x) \<Rightarrow> if x \<in> set vals then Some x else None
      | _ \<Rightarrow> None)"

fun zEmails :: "(string \<Rightarrow> bool) \<Rightarrow> json list \<Rightarrow> string list option" where
  "zEmails isEmail [] = Some []"
| "zEmails isEmail (JStr x # vs) =
     (if isEmail x then map_option ((#) x) (zEmails isEmail vs) else None)"
| "zEmails isEmail (_ # vs) = None"

definition zEmailsOptional :: "(string \<Rightarrow> bool) \<Rightarrow> json option \<Rightarrow> string list option option" where
  "zEmailsOptional isEmail v =
     (case v of
        None \<Rightarrow> Some None
      | Some (JArr vs) \<Rightarrow> map_option Some (zEmails isEmail vs)
      | _ \<Rightarrow> None)"

record CreateEventArgs =
  calendarId :: string
  summary :: string
  description :: "string option"
  location :: "string option"
  attendees :: "string list option"
  start_dt :: string
  end_dt :: string
  timeZone :: string
  colorId :: "string option"

record CreateRecurringEventArgs = CreateEventArgs +
  recurrence :: string

record ListEventsArgs =
  le_calendarId :: string
  maxResults :: int
  timeMin :: "string option"
  timeMax :: "string option"
  singleEvents :: bool
  orderBy :: string

text \<open>
  \<^verbatim>\<open>{ ...args, timeZone: args.timeZone ?? "America/Los_Angeles" }\<close>: both handlers that
  create events replace a missing or \<^verbatim>\<open>null\<close> time zone before parsing.
\<close>

definition withTimeZone :: "(string \<rightharpoonup> json) \<Rightarrow> (string \<rightharpoonup> json)" where
  "withTimeZone args =
     args(''timeZone'' \<mapsto>
       (case args ''timeZone'' of
          None \<Rightarrow> JStr ''America/Los_Angeles''
        | Some JNull \<Rightarrow> JStr ''America/Los_Angeles''
        | Some v \<Rightarrow> v))"

definition CreateEvent_parse :: "(string \<Rightarrow> bool) \<Rightarrow> (string \<rightharpoonup> json) \<Rightarrow> CreateEventArgs option" where
  "CreateEvent_parse isEmail args =
     do {
       cid \<leftarrow> zString (args ''calendarId'');
       sm \<leftarrow> zString (args ''summary'');
       ds \<leftarrow> zStringOptional (args ''description'');
       lc \<leftarrow> zStringOptional (args ''location'');
       att \<leftarrow> zEmailsOptional isEmail (args ''attendees'');
       st \<leftarrow> zString (args ''start'');
       en \<leftarrow> zString (args ''end'');
       tz \<leftarrow> zStringDefault ''America/Los_Angeles'' (args ''timeZone'');
       col \<leftarrow> zStringOptional (args ''colorId'');
       Some \<lparr>calendarId = cid, summary = sm, description = ds, location = lc,
             attendees = att, start_dt = st, end_dt = en, timeZone = tz, colorId = col\<rparr>
     }"

definition CreateRecurringEvent_parse ::
  "(string \<Rightarrow> bool) \<Rightarrow> (string \<rightharpoonup> json) \<Rightarrow> CreateRecurringEventArgs option" where
  "CreateRecurringEvent_parse isEmail args =
     do {
       cid \<leftarrow> zString (args ''calendarId'');
       sm \<leftarrow> zString (args ''summary'');
       ds \<leftarrow> zStringOptional (args ''description'');
       lc \<leftarrow> zStringOptional (args ''location'');
       att \<leftarrow> zEmailsOptional isEmail (args ''attendees'');
       st \<leftarrow> zString (args ''start'');
       en \<leftarrow> zString (args ''end'');
       tz \<leftarrow> zStringDefault ''America/Los_Angeles'' (args ''timeZone'');
       rr \<leftarrow> zString (args ''recurrence'');
       col \<leftarrow> zStringOptional (args ''colorId'');
       Some \<lparr>calendarId = cid, summary = sm, description = ds, location = lc,
             attendees = att, start_dt = st, end_dt = en, timeZone = tz, colorId = col,
             recurrence = rr\<rparr>
     }"

definition ListEvents_parse :: "(string \<rightharpoonup> json) \<Rightarrow> ListEventsArgs option" where
  "ListEvents_parse args =
     do {
       cid \<leftarrow> zString (args ''calendarId'');
       mx \<leftarrow> zNumberDefault 10 (args ''maxResults'');
       tmin \<leftarrow> zStringOptional (args ''timeMin'');
       tmax \<leftarrow> zStringOptional (args ''timeMax'');
       single \<leftarrow> zBooleanDefault True (args ''singleEvents'');
       ord \<leftarrow> zEnumDefault [''startTime'', ''updated''] ''startTime'' (args ''orderBy'');
       Some \<lparr>le_calendarId = cid, maxResults = mx, timeMin = tmin, timeMax = tmax,
             singleEvents = single, orderBy = ord\<rparr>
     }"

section \<open>The calendar server: requests\<close>

text \<open>The request body of \<^verbatim>\<open>calendar.events.insert\<close>; start and end pair a time with a zone.\<close>

record Event =
  ev_summary :: string
  ev_start :: "string \<times> string"
  ev_end :: "string \<times> string"
  ev_recurrence :: "string list option"
  ev_colorId :: string
  ev_description :: "string option"
  ev_location :: "string option"
  ev_attendees :: "string list option"

text \<open>
  \<^verbatim>\<open>
  const colorId = parsed.colorId || suggestColorId(parsed.summary, parsed.description);
  const event: any = { summary, start: {...}, end: {...}, colorId };
  if (parsed.description) event.description = parsed.description;
  if (parsed.location) event.location = parsed.location;
  if (parsed.attendees && parsed.attendees.length > 0) event.attendees = ...;
  \<close>
\<close>

definition eventColor :: "'a CreateEventArgs_scheme \<Rightarrow> string" where
  "eventColor parsed = orDefault (colorId parsed) (suggestColorId (summary parsed) (description parsed))"

definition someAttendees :: "string list option \<Rightarrow> string list option" where
  "someAttendees a = (case a of None \<Rightarrow> None | Some xs \<Rightarrow> if length xs > 0 then Some xs else None)"

definition createEventBody :: "CreateEventArgs \<Rightarrow> Event" where
  "createEventBody parsed =
     \<lparr>ev_summary = summary parsed,
      ev_start = (start_dt parsed, timeZone parsed),
      ev_end = (end_dt parsed, timeZone parsed),
      ev_recurrence = None,
      ev_colorId = eventColor parsed,
      ev_description = (if truthy (description parsed) then description parsed else None),
      ev_location = (if truthy (location parsed) then location parsed else None),
      ev_attendees = someAttendees (attendees parsed)\<rparr>"

definition createRecurringEventBody :: "CreateRecurringEventArgs \<Rightarrow> Event" where
  "createRecurringEventBody parsed =
     \<lparr>ev_summary = summary parsed,
      ev_start = (start_dt parsed, timeZone parsed),
      ev_end = (end_dt parsed, timeZone parsed),
      ev_recurrence = Some [''RRULE:'' @ recurrence parsed],
      ev_colorId = eventColor parsed,
      ev_description = (if truthy (description parsed) then description parsed else None),
      ev_location = (if truthy (location parsed) then location parsed else None),
      ev_attendees = someAttendees (attendees parsed)\<rparr>"

text \<open>
  \<^verbatim>\<open>
  const listParams: any = { calendarId: parsed.calendarId, maxResults: parsed.maxResults,
                            singleEvents: parsed.singleEvents, orderBy: parsed.orderBy };
  if (parsed.timeMin) { listParams.timeMin = parsed.timeMin; }
  if (parsed.timeMax) { listParams.timeMax = parsed.timeMax; }
  \<close>
\<close>

definition listParams :: "ListEventsArgs \<Rightarrow> (string \<rightharpoonup> json)" where
  "listParams parsed =
     (let p0 = [''calendarId'' \<mapsto> JStr (le_calendarId parsed),
                ''maxResults'' \<mapsto> JNum (maxResults parsed),
                ''singleEvents'' \<mapsto> JBool (singleEvents parsed),
                ''orderBy'' \<mapsto> JStr (orderBy parsed)];
          p1 = (if truthy (timeMin parsed) then p0(''timeMin'' \<mapsto> JStr (orDefault (timeMin parsed) []))
                else p0);
          p2 = (if truthy (timeMax parsed) then p1(''timeMax'' \<mapsto> JStr (orDefault (timeMax parsed) []))
                else p1)
      in p2)"

section \<open>The calendar server: tool handlers\<close>

text \<open>
  What the outside world answers during one tool call: the result of \<^verbatim>\<open>getAuth()\<close>, the
  \<^verbatim>\<open>items\<close> of a listing response or the \<^verbatim>\<open>data\<close> of an insert response, or the
  exception the call rejects with. \<open>stringify\<close> is \<^verbatim>\<open>JSON.stringify(., null, 2)\<close> and
  \<open>zodIssues\<close> the message of the \<^verbatim>\<open>ZodError\<close> a failed parse throws. A tool result is
  \<^verbatim>\<open>{ content: [{ type: "text", text }] }\<close>.
\<close>

record gcal =
  isEmail :: "string \<Rightarrow> bool"
  zodIssues :: string
  stringify :: "json \<Rightarrow> string"
  getAuth :: "thrown + handle"
  calendarList_list :: "thrown + json option"
  events_insert :: "string \<Rightarrow> Event \<Rightarrow> thrown + json"
  events_list :: "(string \<rightharpoonup> json) \<Rightarrow> thrown + json option"

datatype toolResult = Content string

definition zodError :: "gcal \<Rightarrow> thrown" where
  "zodError g = JsError ''ZodError'' (zodIssues g) None"

definition errorContent :: "string \<Rightarrow> thrown \<Rightarrow> toolResult" where
  "errorContent label err = Content (label @ messageOrValue err)"

text \<open>
  \<^verbatim>\<open>(data.items ?? []).map(...)\<close> and \<^verbatim>\<open>(data.items || []).map(...)\<close>. The items of a
  listing are taken to be objects, as the service sends them.
\<close>

definition itemsNullish :: "json option \<Rightarrow> thrown + json list" where
  "itemsNullish v =
     (case v of
        None \<Rightarrow> Inr []
      | Some JNull \<Rightarrow> Inr []
      | Some (JArr xs) \<Rightarrow> Inr xs
      | Some _ \<Rightarrow> Inl (typeError ''map is not a function''))"

definition itemsFalsy :: "json option \<Rightarrow> thrown + json list" where
  "itemsFalsy v =
     (if \<not> jtruthy v then Inr []
      else case v of
             Some (JArr xs) \<Rightarrow> Inr xs
           | _ \<Rightarrow> Inl (typeError ''map is not a function''))"

definition calendarEntry :: "json \<Rightarrow> json" where
  "calendarEntry i =
     objectLit [(''id'', getProp ''id'' (Some i)), (''summary'', getProp ''summary'' (Some i))]"

definition formatEvent :: "json \<Rightarrow> json" where
  "formatEvent event =
     (let ev = Some event in
      objectLit
        [(''id'', getProp ''id'' ev),
         (''summary'', jor (getProp ''summary'' ev) (Some (JStr ''No title''))),
         (''start'', jor (getProp ''dateTime'' (getProp ''start'' ev)) (getProp ''date'' (getProp ''start'' ev))),
         (''end'', jor (getProp ''dateTime'' (getProp ''end'' ev)) (getProp ''date'' (getProp ''end'' ev))),
         (''location'', getProp ''location'' ev),
         (''description'', getProp ''description'' ev),
         (''colorId'', getProp ''colorId'' ev),
         (''htmlLink'', getProp ''htmlLink'' ev),
         (''status'', getProp ''status'' ev)])"

text \<open>
  \<^verbatim>\<open>list_calendars\<close>: authentication and the remote call are both inside the \<^verbatim>\<open>try\<close>
  block. The \<^verbatim>\<open>catch\<close> block first logs
  \<^verbatim>\<open>err?.response?.status, err?.response.data || err?.message\<close>; the second expression
  reads \<^verbatim>\<open>.data\<close> of \<^verbatim>\<open>err.response\<close> without a guard, which is a \<^verbatim>\<open>TypeError\<close> when the
  error has no response.
\<close>

definition list_calendars_try :: "gcal \<Rightarrow> thrown + toolResult" where
  "list_calendars_try g =
     (case getAuth g of
        Inl x \<Rightarrow> Inl x
      | Inr auth \<Rightarrow>
          (case calendarList_list g of
             Inl x \<Rightarrow> Inl x
           | Inr its \<Rightarrow>
               (case itemsNullish its of
                  Inl x \<Rightarrow> Inl x
                | Inr xs \<Rightarrow>
                    Inr (Content (stringify g
                           (JObj [(''calendars'', JArr (map calendarEntry xs))]))))))"

definition list_calendars_catch :: "thrown \<Rightarrow> thrown + toolResult" where
  "list_calendars_catch err =
     (case err of
        JsError nm msg (Some r) \<Rightarrow> Inr (errorContent ''Error: '' err)
      | _ \<Rightarrow> Inl (typeError ''Cannot read properties of undefined (reading 'data')''))"

definition list_calendars :: "gcal \<Rightarrow> thrown + toolResult" where
  "list_calendars g =
     (case list_calendars_try g of
        Inr r \<Rightarrow> Inr r
      | Inl err \<Rightarrow> list_calendars_catch err)"

text \<open>
  \<^verbatim>\<open>create_event\<close>: parse, authenticate, build the event and
  \<^verbatim>\<open>await calendar.events.insert({ calendarId, requestBody: event, sendUpdates: "all" })\<close>.
  The handler has no \<^verbatim>\<open>try\<close> block.
\<close>

definition create_event :: "gcal \<Rightarrow> (string \<rightharpoonup> json) \<Rightarrow> thrown + toolResult" where
  "create_event g args =
     (case CreateEvent_parse (isEmail g) (withTimeZone args) of
        None \<Rightarrow> Inl (zodError g)
      | Some parsed \<Rightarrow>
          (case getAuth g of
             Inl x \<Rightarrow> Inl x
           | Inr auth \<Rightarrow>
               (case events_insert g (calendarId parsed) (createEventBody parsed) of
                  Inl x \<Rightarrow> Inl x
                | Inr d \<Rightarrow>
                    Inr (Content (stringify g
                           (objectLit [(''id'', getProp ''id'' (Some d)),
                                       (''htmlLink'', getProp ''htmlLink'' (Some d))]))))))"

text \<open>
  \<^verbatim>\<open>create_recurring_event\<close>: the same steps, with the insert call and the rendering of
  its answer inside \<^verbatim>\<open>try { ... } catch (error) { return { content: [...] } }\<close>.
\<close>

definition create_recurring_event :: "gcal \<Rightarrow> (string \<rightharpoonup> json) \<Rightarrow> thrown + toolResult" where
  "create_recurring_event g args =
     (case CreateRecurringEvent_parse (isEmail g) (withTimeZone args) of
        None \<Rightarrow> Inl (zodError g)
      | Some parsed \<Rightarrow>
          (case getAuth g of
             Inl x \<Rightarrow> Inl x
           | Inr auth \<Rightarrow>
               (case events_insert g (calendarId parsed) (createRecurringEventBody parsed) of
                  Inl err \<Rightarrow> Inr (errorContent ''Error creating recurring event: '' err)
                | Inr d \<Rightarrow>
                    Inr (Content (stringify g
                           (objectLit [(''id'', getProp ''id'' (Some d)),
                                       (''htmlLink'', getProp ''htmlLink'' (Some d)),
                                       (''recurrence'', getProp ''recurrence'' (Some d))]))))))"

text \<open>
  \<^verbatim>\<open>list_events\<close>: parse and authenticate, then inside the \<^verbatim>\<open>try\<close> block build
  \<^verbatim>\<open>listParams\<close>, call \<^verbatim>\<open>calendar.events.list(listParams)\<close> and render the events.
  \<open>list_events_request\<close> is the parameter object of that call, when the call is made.
\<close>

definition list_events_request :: "gcal \<Rightarrow> (string \<rightharpoonup> json) \<Rightarrow> (string \<rightharpoonup> json) option" where
  "list_events_request g args =
     (case ListEvents_parse args of
        None \<Rightarrow> None
      | Some parsed \<Rightarrow>
          (case getAuth g of
             Inl x \<Rightarrow> None
           | Inr auth \<Rightarrow> Some (listParams parsed)))"

definition list_events :: "gcal \<Rightarrow> (string \<rightharpoonup> json) \<Rightarrow> thrown + toolResult" where
  "list_events g args =
     (case ListEvents_parse args of
        None \<Rightarrow> Inl (zodError g)
      | Some parsed \<Rightarrow>
          (case getAuth g of
             Inl x \<Rightarrow> Inl x
           | Inr auth \<Rightarrow>
               (case events_list g (listParams parsed) of
                  Inl err \<Rightarrow> Inr (errorContent ''Error listing events: '' err)
                | Inr its \<Rightarrow>
                    (case itemsFalsy its of
                       Inl err \<Rightarrow> Inr (errorContent ''Error listing events: '' err)
                     | Inr events \<Rightarrow>
                         Inr (Content (stringify g (JArr (map formatEvent events))))))))"

section \<open>Whole-word occurrence\<close>

text \<open>
  The reading of "the text contains one of the keywords as a whole word" that the
  colour rules are compared with: the text splits into a part before, a keyword and a
  part after, where the part before is empty or ends in a non-word character and the part
  after is empty or starts with one.
\<close>

definition containsWholeWord :: "string list \<Rightarrow> string \<Rightarrow> bool" where
  "containsWholeWord ws text \<longleftrightarrow>
     (\<exists>pre w post. text = pre @ w @ post \<and> w \<in> set ws
        \<and> (pre = [] \<or> \<not> isWordChar (last pre))
        \<and> (post = [] \<or> \<not> isWordChar (hd post)))"

section \<open>Sample worlds\<close>

text \<open>
  \<open>quietEnv\<close>: every call succeeds and no selector finds an element. \<open>launchFailsEnv\<close>:
  the browser cannot be launched. \<open>detachedEnv\<close>: the page has one menu element whose
  attribute read throws.
\<close>

definition quietEnv :: env where
  "quietEnv =
     \<lparr>OUT_DIR = ''orders'', mkdir = Inr (), launch = Inr 1, newContext = Inr (),
      newPage = Inr 2, goto = Inr (), settle = Inr (), locatorAll = (\<lambda>selector. Inr []),
      modalBody = Inr (), now = 0, screenshot = (\<lambda>filepath. Inr ())\<rparr>"

definition launchFailsEnv :: env where
  "launchFailsEnv = quietEnv\<lparr>launch := Inl (JsError ''Error'' ''Failed to launch chromium'' None)\<rparr>"

definition detachedElement :: element where
  "detachedElement =
     \<lparr>item_name = Inl (JsError ''Error'' ''Element is not attached to the DOM'' None),
      item_price = Inr None, textContent = Inr None, click = Inr ()\<rparr>"

definition detachedEnv :: env where
  "detachedEnv = quietEnv\<lparr>locatorAll := (\<lambda>selector. Inr [detachedElement])\<rparr>"

text \<open>
  \<open>sampleGcal\<close>: authentication and every remote call succeed. \<open>insertFailsGcal\<close>: the
  insert call is rejected with an HTTP error. The sample arguments name the calendar
  "primary" and an event "Lunch" without a colour.
\<close>

definition sampleGcal :: gcal where
  "sampleGcal =
     \<lparr>isEmail = (\<lambda>address. True), zodIssues = ''invalid arguments'',
      stringify = (\<lambda>v. ''{}''), getAuth = Inr 0, calendarList_list = Inr None,
      events_insert = (\<lambda>cid event. Inr (JObj [(''id'', JStr ''e1'')])),
      events_list = (\<lambda>params. Inr None)\<rparr>"

definition insertFailsGcal :: gcal where
  "insertFailsGcal =
     sampleGcal\<lparr>events_insert :=
       (\<lambda>cid event. Inl (JsError ''Error'' ''Invalid start time'' (Some (400, ''Bad Request''))))\<rparr>"

definition sampleEventArgs :: "string \<rightharpoonup> json" where
  "sampleEventArgs =
     [''calendarId'' \<mapsto> JStr ''primary'', ''summary'' \<mapsto> JStr ''Lunch'',
      ''start'' \<mapsto> JStr ''2025-01-01T12:00:00'', ''end'' \<mapsto> JStr ''2025-01-01T13:00:00'']"

definition sampleListArgs :: "string \<rightharpoonup> json" where
  "sampleListArgs = [''calendarId'' \<mapsto> JStr ''primary'']"

definition sampleParsed :: CreateEventArgs where
  "sampleParsed =
     \<lparr>calendarId = ''primary'', summary = ''Lunch'', description = None, location = None,
      attendees = None, start_dt = ''2025-01-01T12:00:00'', end_dt = ''2025-01-01T13:00:00'',
      timeZone = ''America/Los_Angeles'', colorId = None\<rparr>"

definition sampleRecurringParsed :: CreateRecurringEventArgs where
  "sampleRecurringParsed =
     \<lparr>calendarId = ''primary'', summary = ''Lunch'', description = None, location = None,
      attendees = None, start_dt = ''2025-01-01T12:00:00'', end_dt = ''2025-01-01T13:00:00'',
      timeZone = ''America/Los_Angeles'', colorId = None, recurrence = ''FREQ=DAILY''\<rparr>"

text \<open>The state invariant behind the single session: no session without a browser, and at most one.\<close>

definition oneSession :: "driver \<Rightarrow> bool" where
  "oneSession s = (case browser s of None \<Rightarrow> sessions s = [] | Some b \<Rightarrow> length (sessions s) \<le> 1)"

section \<open>Properties of the string operations\<close>

lemma startsWith_prefix: "startsWith s t \<longleftrightarrow> prefix t s"
  by (induction s t rule: startsWith.induct) auto

lemma includes_sublist: "includes_str s t \<longleftrightarrow> sublist t s"
proof (induction s)
  case Nil
  show ?case by simp
next
  case (Cons x xs)
  show ?case
    by (simp only: includes_str.simps startsWith_prefix Cons.IH sublist_Cons_right)
qed

lemma includes_empty: "includes_str s []"
  by (cases s) simp_all

section \<open>The patterns and whole words\<close>

lemma wordBoundary_append:
  "wordBoundary (pre @ post) (length pre) =
     ((pre \<noteq> [] \<and> isWordChar (last pre)) \<noteq> (post \<noteq> [] \<and> isWordChar (hd post)))"
proof -
  have a: "pre \<noteq> [] \<Longrightarrow> (pre @ post) ! (length pre - 1) = last pre"
    by (simp add: nth_append last_conv_nth)
  have b: "post \<noteq> [] \<Longrightarrow> (pre @ post) ! (length pre) = hd post"
    by (simp add: nth_append hd_conv_nth)
  show ?thesis
  proof (cases "pre = []")
    case True
    then show ?thesis using b by (cases "post = []") (simp_all add: wordBoundary_def)
  next
    case False
    then show ?thesis using a b by (cases "post = []") (simp_all add: wordBoundary_def)
  qed
qed

lemma regexTest_positions:
  "regexTest ws text \<longleftrightarrow>
     (\<exists>p w. p \<le> length text \<and> w \<in> set ws \<and> wordBoundary text p
        \<and> take (length w) (drop p text) = w \<and> wordBoundary text (p + length w))"
proof -
  have "regexTest ws text \<longleftrightarrow> (\<exists>p \<in> {0..<Suc (length text)}. matchesAt ws text p)"
    by (simp add: regexTest_def list_ex_iff del: upt_Suc)
  also have "\<dots> \<longleftrightarrow> (\<exists>p. p \<le> length text \<and> matchesAt ws text p)"
    by (simp add: Bex_def less_Suc_eq_le)
  finally show ?thesis
    unfolding matchesAt_def list_ex_iff by blast
qed

lemma regexTest_split:
  "regexTest ws text \<longleftrightarrow>
     (\<exists>pre w post. text = pre @ w @ post \<and> w \<in> set ws
        \<and> wordBoundary text (length pre) \<and> wordBoundary text (length pre + length w))"
  (is "?L \<longleftrightarrow> ?R")
proof
  assume ?L
  then obtain p w where p: "p \<le> length text" and w: "w \<in> set ws"
    and b1: "wordBoundary text p" and tk: "take (length w) (drop p text) = w"
    and b2: "wordBoundary text (p + length w)"
    unfolding regexTest_positions by blast
  have "text = take p text @ w @ drop (length w) (drop p text)"
    using tk by (metis append_take_drop_id)
  moreover have "length (take p text) = p" using p by simp
  ultimately show ?R using w b1 b2 by metis
next
  assume ?R
  then obtain pre w post where t: "text = pre @ w @ post" and w: "w \<in> set ws"
    and b1: "wordBoundary text (length pre)" and b2: "wordBoundary text (length pre + length w)"
    by blast
  have "take (length w) (drop (length pre) text) = w" using t by simp
  moreover have "length pre \<le> length text" using t by simp
  ultimately show ?L using w b1 b2
    unfolding regexTest_positions by blast
qed

lemma regexTest_wholeWord:
  assumes "\<forall>w \<in> set ws. w \<noteq> [] \<and> isWordChar (hd w) \<and> isWordChar (last w)"
  shows "regexTest ws text \<longleftrightarrow> containsWholeWord ws text"
proof -
  have "wordBoundary (pre @ w @ post) (length pre) \<and> wordBoundary (pre @ w @ post) (length pre + length w)
        \<longleftrightarrow> (pre = [] \<or> \<not> isWordChar (last pre)) \<and> (post = [] \<or> \<not> isWordChar (hd post))"
    if "w \<in> set ws" for pre w post
  proof -
    from that assms have w: "w \<noteq> []" "isWordChar (hd w)" "isWordChar (last w)" by auto
    have 1: "wordBoundary (pre @ (w @ post)) (length pre) \<longleftrightarrow> (pre = [] \<or> \<not> isWordChar (last pre))"
      unfolding wordBoundary_append using w by auto
    have 2: "wordBoundary ((pre @ w) @ post) (length (pre @ w)) \<longleftrightarrow> (post = [] \<or> \<not> isWordChar (hd post))"
      unfolding wordBoundary_append using w by auto
    show ?thesis using 1 2 by simp
  qed
  then show ?thesis
    unfolding regexTest_split containsWholeWord_def by blast
qed

section \<open>Item matching\<close>

text \<open>
  Claim C4. For every candidate text and search term, \<open>isItemMatch\<close> is true exactly when,
  after lowercasing both, the candidate contains the search term or the search term
  contains the candidate, containment being that of a contiguous substring
  (\<open>sublist\<close>). The candidate "BEC Sandwich" does not match the term "bacon sandwich",
  and neither does "Bacon, Egg & Cheese Sandwich", since neither lowercased string
  contains the other.
\<close>

theorem isItemMatch_bidirectional:
  "(isItemMatch itemText searchTerm \<longleftrightarrow>
      sublist (toLowerCase searchTerm) (toLowerCase itemText)
      \<or> sublist (toLowerCase itemText) (toLowerCase searchTerm))
   \<and> \<not> isItemMatch ''BEC Sandwich'' ''bacon sandwich''
   \<and> \<not> isItemMatch ''Bacon, Egg & Cheese Sandwich'' ''bacon sandwich''"
proof -
  have "isItemMatch itemText searchTerm \<longleftrightarrow>
      sublist (toLowerCase searchTerm) (toLowerCase itemText)
      \<or> sublist (toLowerCase itemText) (toLowerCase searchTerm)"
    by (simp add: isItemMatch_def Let_def includes_sublist)
  moreover have "\<not> isItemMatch ''BEC Sandwich'' ''bacon sandwich''"
    by code_simp
  moreover have "\<not> isItemMatch ''Bacon, Egg & Cheese Sandwich'' ''bacon sandwich''"
    by code_simp
  ultimately show ?thesis by blast
qed

lemma toLowerCase_Nil: "toLowerCase [] = []"
  by (simp add: toLowerCase_def)

text \<open>
  Claim C9. The empty candidate text matches every search term. An element whose
  \<^verbatim>\<open>item-name\<close> attribute and text content are both absent is compared by the empty
  string, so it matches any requested name: when it is first in the list and its click
  succeeds, the search returns it as the clicked element, named "Unknown".
\<close>

theorem empty_candidate_matches:
  "isItemMatch [] searchTerm
   \<and> candidateText None None = []
   \<and> isItemMatch (candidateText None None) searchTerm
   \<and> searchItems (\<lparr>item_name = Inr None, item_price = pr, textContent = Inr None,
                    click = Inr ()\<rparr> # rest) searchTerm
       = Inr \<lparr>cr_success = True, cr_found = True, cr_error = None,
              cr_clickedElement = Some ''Unknown''\<rparr>"
proof -
  have m: "isItemMatch [] searchTerm"
    by (simp add: isItemMatch_def Let_def toLowerCase_Nil includes_empty)
  have c: "candidateText None None = []"
    by (simp add: candidateText_def orElse_def orDefault_def truthy_def)
  have u: "orDefault (orElse None None) ''Unknown'' = ''Unknown''"
    by (simp add: orElse_def orDefault_def truthy_def)
  show ?thesis using m c u by simp
qed

section \<open>Colour suggestion\<close>

text \<open>
  Claim C6. Without a description, \<open>suggestColorId\<close> returns "7" for the summary
  "Team standup meeting", "2" for "Doctor appointment" and "1" for the empty summary;
  and it returns "1" for every text that matches none of the five category patterns.
\<close>

theorem suggestColorId_examples:
  "suggestColorId ''Team standup meeting'' None = ''7''
   \<and> suggestColorId ''Doctor appointment'' None = ''2''
   \<and> suggestColorId [] None = ''1''
   \<and> (\<not> regexTest workWords (colorText sm ds)
        \<and> \<not> regexTest socialWords (colorText sm ds)
        \<and> \<not> regexTest healthWords (colorText sm ds)
        \<and> \<not> regexTest learningWords (colorText sm ds)
        \<and> \<not> regexTest travelWords (colorText sm ds)
      \<longrightarrow> suggestColorId sm ds = ''1'')"
proof -
  have "suggestColorId ''Team standup meeting'' None = ''7''" by code_simp
  moreover have "suggestColorId ''Doctor appointment'' None = ''2''" by code_simp
  moreover have "suggestColorId [] None = ''1''" by code_simp
  ultimately show ?thesis by (simp add: suggestColorId_def Let_def)
qed

theorem suggestColorId_examples_witness:
  "\<not> regexTest workWords (colorText ''Lunch'' None)
   \<and> \<not> regexTest socialWords (colorText ''Lunch'' None)
   \<and> \<not> regexTest healthWords (colorText ''Lunch'' None)
   \<and> \<not> regexTest learningWords (colorText ''Lunch'' None)
   \<and> \<not> regexTest travelWords (colorText ''Lunch'' None)
   \<and> suggestColorId ''Lunch'' None = ''1''"
proof -
  have 1: "\<not> regexTest workWords (colorText ''Lunch'' None)" by code_simp
  have 2: "\<not> regexTest socialWords (colorText ''Lunch'' None)" by code_simp
  have 3: "\<not> regexTest healthWords (colorText ''Lunch'' None)" by code_simp
  have 4: "\<not> regexTest learningWords (colorText ''Lunch'' None)" by code_simp
  have 5: "\<not> regexTest travelWords (colorText ''Lunch'' None)" by code_simp
  show ?thesis
    using 1 2 3 4 5 suggestColorId_examples [of "''Lunch''" None] by blast
qed

lemma wordLists_wellformed:
  "\<forall>w \<in> set workWords. w \<noteq> [] \<and> isWordChar (hd w) \<and> isWordChar (last w)"
  "\<forall>w \<in> set meetingWords. w \<noteq> [] \<and> isWordChar (hd w) \<and> isWordChar (last w)"
  "\<forall>w \<in> set urgentWords. w \<noteq> [] \<and> isWordChar (hd w) \<and> isWordChar (last w)"
  by (simp_all add: workWords_def meetingWords_def urgentWords_def isWordChar_def)

text \<open>
  Claim C5. When the lowercased text of summary and description contains a work keyword
  as a whole word, the suggested colour is one of "7", "8" and "9": "7" when the text
  contains a meeting-like keyword, otherwise "8" when it contains a deadline-like
  keyword, otherwise "9".
\<close>

theorem work_keyword_colors:
  assumes "containsWholeWord workWords (colorText sm ds)"
  shows "suggestColorId sm ds \<in> {''7'', ''8'', ''9''}
         \<and> suggestColorId sm ds =
             (if containsWholeWord meetingWords (colorText sm ds) then ''7''
              else if containsWholeWord urgentWords (colorText sm ds) then ''8''
              else ''9'')"
proof -
  have "regexTest workWords (colorText sm ds)"
    using assms by (simp add: regexTest_wholeWord [OF wordLists_wellformed(1)])
  then have "suggestColorId sm ds =
             (if regexTest meetingWords (colorText sm ds) then ''7''
              else if regexTest urgentWords (colorText sm ds) then ''8''
              else ''9'')"
    by (simp add: suggestColorId_def Let_def)
  then show ?thesis
    by (simp add: regexTest_wholeWord [OF wordLists_wellformed(2)]
                  regexTest_wholeWord [OF wordLists_wellformed(3)])
qed

theorem work_keyword_colors_witness:
  "containsWholeWord workWords (colorText ''Project deadline'' None)
   \<and> suggestColorId ''Project deadline'' None = ''8''"
proof -
  have t: "colorText ''Project deadline'' None = [] @ ''project'' @ '' deadline ''"
    by code_simp
  have "containsWholeWord workWords ([] @ ''project'' @ '' deadline '')"
    unfolding containsWholeWord_def
    by (intro exI [of _ "[]"] exI [of _ "''project''"] exI [of _ "'' deadline ''"])
       (simp add: workWords_def isWordChar_def)
  then have h: "containsWholeWord workWords (colorText ''Project deadline'' None)"
    using t by simp
  have v: "suggestColorId ''Project deadline'' None = ''8''" by code_simp
  have "suggestColorId ''Project deadline'' None \<in> {''7'', ''8'', ''9''}"
    using work_keyword_colors [OF h] by blast
  then show ?thesis using h v by blast
qed

section \<open>The browser session\<close>

lemma initBrowser_existing: "browser s = Some b \<Longrightarrow> initBrowser e s = (Inr (), s)"
  by (simp add: initBrowser_def)

lemma initBrowser_oneSession: "oneSession s \<Longrightarrow> oneSession (snd (initBrowser e s))"
  by (auto simp: initBrowser_def oneSession_def Let_def split: option.splits sum.splits)

lemma orderFoodItem_state:
  "snd (orderFoodItem e nm qty cust s) = s \<or> snd (orderFoodItem e nm qty cust s) = snd (initBrowser e s)"
  by (auto simp: orderFoodItem_def split: sum.splits prod.splits)

lemma browseMenu_state: "snd (browseMenu e category search s) = snd (initBrowser e s)"
  by (auto simp: browseMenu_def split: sum.splits prod.splits)

lemma step_oneSession: "oneSession s \<Longrightarrow> oneSession (step e oper s)"
proof (cases oper)
  case (OrderFoodItem nm qty cust)
  assume "oneSession s"
  then show ?thesis
    using orderFoodItem_state [of e nm qty cust s] initBrowser_oneSession [of s e]
    by (auto simp: OrderFoodItem)
next
  case (BrowseMenu category search)
  assume "oneSession s"
  then show ?thesis
    by (simp add: BrowseMenu browseMenu_state initBrowser_oneSession)
qed (simp_all add: getCartContents_def clearCart_def proceedToCheckout_def)

lemma run_oneSession: "oneSession s \<Longrightarrow> oneSession (run ops s)"
proof (induction ops arbitrary: s)
  case Nil
  then show ?case by simp
next
  case (Cons a ops)
  obtain e oper where a: "a = (e, oper)" by (cases a)
  show ?case using Cons by (simp add: a step_oneSession)
qed

lemma oneSession_length: "oneSession s \<Longrightarrow> length (sessions s) \<le> 1"
  by (auto simp: oneSession_def split: option.splits)

text \<open>
  Claim C8. \<open>initBrowser\<close> on a state that already holds a browser returns at once and
  leaves the state as it was, so it launches nothing and navigates nowhere (the counters
  of launches and navigations are part of the state). Starting from the initial state,
  whatever public operations run one after the other and whatever the world answers, at
  most one browser session is ever created.
\<close>

theorem initBrowser_idempotent:
  "(browser s \<noteq> None \<longrightarrow> initBrowser e s = (Inr (), s))
   \<and> length (sessions (run ops initialDriver)) \<le> 1"
proof -
  have "oneSession initialDriver" by (simp add: oneSession_def initialDriver_def)
  then have "length (sessions (run ops initialDriver)) \<le> 1"
    by (intro oneSession_length run_oneSession)
  then show ?thesis using initBrowser_existing by auto
qed

theorem initBrowser_idempotent_witness:
  "browser (run [(quietEnv, OrderFoodItem ''coffee'' 1 None)] initialDriver) \<noteq> None
   \<and> initBrowser launchFailsEnv (run [(quietEnv, OrderFoodItem ''coffee'' 1 None)] initialDriver)
       = (Inr (), run [(quietEnv, OrderFoodItem ''coffee'' 1 None)] initialDriver)
   \<and> sessions (run [(quietEnv, OrderFoodItem ''coffee'' 1 None), (quietEnv, BrowseMenu None None),
                     (quietEnv, OrderFoodItem ''tea'' 2 None)] initialDriver) = [1]"
proof -
  have b: "browser (run [(quietEnv, OrderFoodItem ''coffee'' 1 None)] initialDriver) = Some 1"
    by (simp add: orderFoodItem_def initBrowser_def quietEnv_def initialDriver_def Let_def
          split: sum.splits prod.splits)
  have s: "sessions (run [(quietEnv, OrderFoodItem ''coffee'' 1 None), (quietEnv, BrowseMenu None None),
                     (quietEnv, OrderFoodItem ''tea'' 2 None)] initialDriver) = [1]"
    by (simp add: orderFoodItem_def browseMenu_def initBrowser_def quietEnv_def initialDriver_def Let_def
          split: sum.splits prod.splits)
  show ?thesis
    using b s initBrowser_idempotent [of "run [(quietEnv, OrderFoodItem ''coffee'' 1 None)] initialDriver"
        launchFailsEnv "[]"]
    by simp
qed

section \<open>Failures of \<open>orderFoodItem\<close>\<close>

text \<open>
  Claim C1, as stated, fails: when the browser cannot be launched, \<open>orderFoodItem\<close> throws
  the launch error instead of returning a result, because \<^verbatim>\<open>initBrowser()\<close> is awaited
  before the \<^verbatim>\<open>try\<close> block.
\<close>

theorem orderFoodItem_launch_failure:
  "orderFoodItem launchFailsEnv ''coffee'' 1 None initialDriver
     = (Inl (JsError ''Error'' ''Failed to launch chromium'' None),
        initialDriver\<lparr>launches := 1\<rparr>)"
  by (simp add: orderFoodItem_def initBrowser_def launchFailsEnv_def quietEnv_def
        initialDriver_def Let_def)

lemma orderFoodItem_mkdir_throws:
  "mkdir e = Inl x \<Longrightarrow> orderFoodItem e nm qty cust s = (Inl x, s)"
  by (simp add: orderFoodItem_def)

lemma orderFoodItem_init_throws:
  "mkdir e = Inr () \<Longrightarrow> initBrowser e s = (Inl x, s') \<Longrightarrow> orderFoodItem e nm qty cust s = (Inl x, s')"
  by (simp add: orderFoodItem_def)

lemma orderFoodItem_catch_throws:
  "mkdir e = Inr () \<Longrightarrow> initBrowser e s = (Inr (), s') \<Longrightarrow> orderTry e (page s') nm qty = Inl err
   \<Longrightarrow> takeScreenshot e (page s') ''click-error'' = Inl x
   \<Longrightarrow> orderFoodItem e nm qty cust s = (Inl x, s')"
  by (simp add: orderFoodItem_def orderCatch_def)

lemma handleOrderModal_returns: "handleOrderModal e pg = Inr ()"
  by (simp add: handleOrderModal_def split: option.splits sum.splits)

text \<open>
  Claim C1, amended. Once the output directory is made and \<open>initBrowser\<close> has returned,
  \<open>orderFoodItem\<close> returns a result whenever the failure screenshot can be written: if a
  step inside the \<^verbatim>\<open>try\<close> block threw, that result has \<^verbatim>\<open>success\<close> and \<^verbatim>\<open>found\<close> false, the
  path of the failure screenshot and the message of the exception.
\<close>

theorem orderFoodItem_catches_after_setup:
  assumes "mkdir e = Inr ()"
    and "initBrowser e s = (Inr (), s')"
    and "takeScreenshot e (page s') ''click-error'' = Inr shot"
  shows "\<exists>r. orderFoodItem e nm qty cust s = (Inr r, s')
           \<and> (\<forall>err. orderTry e (page s') nm qty = Inl err \<longrightarrow>
                 r = \<lparr>success = False, itemName = nm, quantity = qty, found = False,
                       screenshotPath = shot, error = Some (messageOf err),
                       clickedElement = None\<rparr>)"
proof (cases "orderTry e (page s') nm qty")
  case (Inl err)
  then show ?thesis using assms by (simp add: orderFoodItem_def orderCatch_def)
next
  case (Inr r)
  then show ?thesis using assms by (simp add: orderFoodItem_def)
qed

theorem orderFoodItem_catches_after_setup_witness:
  "mkdir detachedEnv = Inr ()
   \<and> initBrowser detachedEnv initialDriver
       = (Inr (), \<lparr>browser = Some 1, page = Some 2, launches = 1, sessions = [1], navigations = 1\<rparr>)
   \<and> takeScreenshot detachedEnv (Some 2) ''click-error'' = Inr ''orders/click-error-0.png''
   \<and> orderTry detachedEnv (Some 2) ''coffee'' 1
       = Inl (JsError ''Error'' ''Element is not attached to the DOM'' None)
   \<and> fst (orderFoodItem detachedEnv ''coffee'' 1 None initialDriver)
       = Inr \<lparr>success = False, itemName = ''coffee'', quantity = 1, found = False,
              screenshotPath = ''orders/click-error-0.png'',
              error = Some ''Element is not attached to the DOM'', clickedElement = None\<rparr>"
proof -
  let ?s = "\<lparr>browser = Some 1, page = Some 2, launches = 1, sessions = [1], navigations = 1\<rparr>"
  have m: "mkdir detachedEnv = Inr ()"
    by (simp add: detachedEnv_def quietEnv_def)
  have i: "initBrowser detachedEnv initialDriver = (Inr (), ?s)"
    by (simp add: initBrowser_def detachedEnv_def quietEnv_def initialDriver_def Let_def)
  have sh: "takeScreenshot detachedEnv (page ?s) ''click-error'' = Inr ''orders/click-error-0.png''"
    by code_simp
  have t: "orderTry detachedEnv (page ?s) ''coffee'' 1
            = Inl (JsError ''Error'' ''Element is not attached to the DOM'' None)"
    by (simp add: orderTry_def findAndClickItem_def itemSelectors_def detachedEnv_def
          quietEnv_def detachedElement_def)
  from orderFoodItem_catches_after_setup [OF m i sh, of "''coffee''" 1 None]
  obtain r where r: "orderFoodItem detachedEnv ''coffee'' 1 None initialDriver = (Inr r, ?s)"
    and e: "\<forall>err. orderTry detachedEnv (page ?s) ''coffee'' 1 = Inl err \<longrightarrow>
                 r = \<lparr>success = False, itemName = ''coffee'', quantity = 1, found = False,
                       screenshotPath = ''orders/click-error-0.png'', error = Some (messageOf err),
                       clickedElement = None\<rparr>"
    by blast
  from e t have "r = \<lparr>success = False, itemName = ''coffee'', quantity = 1, found = False,
                       screenshotPath = ''orders/click-error-0.png'',
                       error = Some ''Element is not attached to the DOM'',
                       clickedElement = None\<rparr>"
    by simp
  then show ?thesis using m i sh t r by simp
qed

section \<open>The cart and checkout stubs\<close>

text \<open>
  Claim C3, as stated, fails for \<open>getCartContents\<close>: its result has no \<^verbatim>\<open>success\<close>
  property, so it does not carry \<^verbatim>\<open>success = false\<close>.
\<close>

theorem getCartContents_no_success_flag:
  "map_of (CartContents_props (projr (fst (getCartContents initialDriver)))) ''success'' \<noteq> Some (JBool False)"
  by (simp add: getCartContents_def CartContents_props_def)

text \<open>
  Claim C3, amended. In every state each stub returns without throwing and leaves the
  state alone. \<open>clearCart\<close> and \<open>proceedToCheckout\<close> return \<^verbatim>\<open>success = false\<close> with a
  not-implemented message. \<open>getCartContents\<close> returns a cart without a \<^verbatim>\<open>success\<close>
  property: its only item is the not-implemented message, its total is "0.00" and its
  item count is 0.
\<close>

theorem stubs_report_not_implemented:
  "(\<exists>c. getCartContents s = (Inr c, s)
        \<and> map_of (CartContents_props c) ''success'' = None
        \<and> map_of (CartContents_props c) ''items''
            = Some (JArr [JStr ''Cart functionality not implemented yet''])
        \<and> map_of (CartContents_props c) ''total'' = Some (JStr ''0.00'')
        \<and> map_of (CartContents_props c) ''itemCount'' = Some (JNum 0))
   \<and> (\<exists>c. clearCart s = (Inr c, s)
        \<and> map_of (ClearResult_props c) ''success'' = Some (JBool False)
        \<and> map_of (ClearResult_props c) ''message''
            = Some (JStr ''Cart clearing not implemented yet''))
   \<and> (\<exists>c. proceedToCheckout s = (Inr c, s)
        \<and> map_of (CheckoutResult_props c) ''success'' = Some (JBool False)
        \<and> map_of (CheckoutResult_props c) ''message''
            = Some (JStr ''Checkout not implemented yet''))"
  by (simp add: getCartContents_def clearCart_def proceedToCheckout_def
        CartContents_props_def ClearResult_props_def CheckoutResult_props_def)

section \<open>Remote errors in the calendar handlers\<close>

lemma create_event_propagates:
  "CreateEvent_parse (isEmail g) (withTimeZone args) = Some parsed \<Longrightarrow> getAuth g = Inr a
   \<Longrightarrow> events_insert g (calendarId parsed) (createEventBody parsed) = Inl err
   \<Longrightarrow> create_event g args = Inl err"
  by (simp add: create_event_def)

lemma create_recurring_event_catches:
  "CreateRecurringEvent_parse (isEmail g) (withTimeZone args) = Some parsed \<Longrightarrow> getAuth g = Inr a
   \<Longrightarrow> events_insert g (calendarId parsed) (createRecurringEventBody parsed) = Inl err
   \<Longrightarrow> create_recurring_event g args = Inr (errorContent ''Error creating recurring event: '' err)"
  by (simp add: create_recurring_event_def)

lemma list_events_catches:
  "ListEvents_parse args = Some parsed \<Longrightarrow> getAuth g = Inr a
   \<Longrightarrow> \<exists>text. list_events g args = Inr (Content text)"
  by (auto simp: list_events_def errorContent_def split: sum.splits)

lemma list_calendars_without_response:
  "getAuth g = Inr a \<Longrightarrow> calendarList_list g = Inl (JsError nm msg None)
   \<Longrightarrow> list_calendars g = Inl (typeError ''Cannot read properties of undefined (reading 'data')'')"
  by (simp add: list_calendars_def list_calendars_try_def list_calendars_catch_def)

lemma list_calendars_with_response:
  "getAuth g = Inr a \<Longrightarrow> calendarList_list g = Inl (JsError nm msg (Some r))
   \<Longrightarrow> list_calendars g = Inr (errorContent ''Error: '' (JsError nm msg (Some r)))"
  by (simp add: list_calendars_def list_calendars_try_def list_calendars_catch_def)

lemma sample_parse:
  "CreateEvent_parse (\<lambda>address. True) (withTimeZone sampleEventArgs) = Some sampleParsed"
  by (simp add: CreateEvent_parse_def withTimeZone_def sampleEventArgs_def sampleParsed_def
        zString_def zStringOptional_def zStringDefault_def zEmailsOptional_def)

text \<open>
  Claim C2 at \<open>create_event\<close>: with valid arguments and a working authentication, an
  insert call rejected by the remote service leaves the handler as that same exception;
  \<open>create_recurring_event\<close> on the same rejection returns an error text.
\<close>

theorem create_event_rethrows_remote_error:
  "create_event insertFailsGcal sampleEventArgs
     = Inl (JsError ''Error'' ''Invalid start time'' (Some (400, ''Bad Request'')))
   \<and> create_recurring_event insertFailsGcal (sampleEventArgs(''recurrence'' \<mapsto> JStr ''FREQ=DAILY''))
     = Inr (Content ''Error creating recurring event: Invalid start time'')"
proof -
  have 1: "create_event insertFailsGcal sampleEventArgs
     = Inl (JsError ''Error'' ''Invalid start time'' (Some (400, ''Bad Request'')))"
    by (simp add: create_event_def insertFailsGcal_def sampleGcal_def sample_parse)
  have p: "CreateRecurringEvent_parse (\<lambda>address. True)
             (withTimeZone (sampleEventArgs(''recurrence'' \<mapsto> JStr ''FREQ=DAILY'')))
           = Some sampleRecurringParsed"
    by (simp add: CreateRecurringEvent_parse_def withTimeZone_def sampleEventArgs_def
        sampleRecurringParsed_def zString_def zStringOptional_def zStringDefault_def
        zEmailsOptional_def)
  have 2: "create_recurring_event insertFailsGcal (sampleEventArgs(''recurrence'' \<mapsto> JStr ''FREQ=DAILY''))
     = Inr (Content ''Error creating recurring event: Invalid start time'')"
    by (simp add: create_recurring_event_def insertFailsGcal_def sampleGcal_def p errorContent_def)
  show ?thesis using 1 2 by simp
qed

section \<open>The request of \<open>list_events\<close>\<close>

lemma ListEvents_parse_bounds:
  assumes "ListEvents_parse args = Some parsed"
  shows "(args ''timeMin'' = None \<longrightarrow> timeMin parsed = None)
         \<and> (args ''timeMax'' = None \<longrightarrow> timeMax parsed = None)"
  using assms
  by (auto simp: ListEvents_parse_def zStringOptional_def bind_eq_Some_conv)

lemma listParams_dom:
  "dom (listParams parsed) =
     {''calendarId'', ''maxResults'', ''singleEvents'', ''orderBy''}
     \<union> (if truthy (timeMin parsed) then {''timeMin''} else {})
     \<union> (if truthy (timeMax parsed) then {''timeMax''} else {})"
  by (auto simp: listParams_def Let_def)

text \<open>
  Claim C7. Whenever \<open>list_events\<close> reaches the upstream call, the parameter object has
  the keys \<^verbatim>\<open>calendarId\<close>, \<^verbatim>\<open>maxResults\<close>, \<^verbatim>\<open>singleEvents\<close> and \<^verbatim>\<open>orderBy\<close>; it has no
  key \<^verbatim>\<open>timeMin\<close> when the arguments have none, and no key \<^verbatim>\<open>timeMax\<close> when the arguments
  have none.
\<close>

theorem list_events_request_keys:
  assumes "list_events_request g args = Some params"
  shows "{''calendarId'', ''maxResults'', ''singleEvents'', ''orderBy''} \<subseteq> dom params
         \<and> (args ''timeMin'' = None \<longrightarrow> ''timeMin'' \<notin> dom params)
         \<and> (args ''timeMax'' = None \<longrightarrow> ''timeMax'' \<notin> dom params)"
proof -
  from assms obtain parsed where p: "ListEvents_parse args = Some parsed"
    and q: "params = listParams parsed"
    by (auto simp: list_events_request_def split: option.splits sum.splits)
  have t: "truthy None = False" by (simp add: truthy_def)
  show ?thesis
    unfolding q listParams_dom using ListEvents_parse_bounds [OF p] t by auto
qed

lemma list_events_uses_request:
  assumes "list_events_request g args = Some params"
  shows "list_events g args =
           (case events_list g params of
              Inl err \<Rightarrow> Inr (errorContent ''Error listing events: '' err)
            | Inr its \<Rightarrow>
                (case itemsFalsy its of
                   Inl err \<Rightarrow> Inr (errorContent ''Error listing events: '' err)
                 | Inr events \<Rightarrow> Inr (Content (stringify g (JArr (map formatEvent events))))))"
  using assms
  by (auto simp: list_events_request_def list_events_def split: option.splits sum.splits)

theorem list_events_request_keys_witness:
  "list_events_request sampleGcal sampleListArgs
     = Some [''calendarId'' \<mapsto> JStr ''primary'', ''maxResults'' \<mapsto> JNum 10,
             ''singleEvents'' \<mapsto> JBool True, ''orderBy'' \<mapsto> JStr ''startTime'']
   \<and> sampleListArgs ''timeMin'' = None \<and> sampleListArgs ''timeMax'' = None
   \<and> ''timeMin'' \<notin> dom [''calendarId'' \<mapsto> JStr ''primary'', ''maxResults'' \<mapsto> JNum 10,
             ''singleEvents'' \<mapsto> JBool True, ''orderBy'' \<mapsto> JStr ''startTime'']
   \<and> ''timeMax'' \<notin> dom [''calendarId'' \<mapsto> JStr ''primary'', ''maxResults'' \<mapsto> JNum 10,
             ''singleEvents'' \<mapsto> JBool True, ''orderBy'' \<mapsto> JStr ''startTime'']"
proof -
  have r: "list_events_request sampleGcal sampleListArgs
     = Some [''calendarId'' \<mapsto> JStr ''primary'', ''maxResults'' \<mapsto> JNum 10,
             ''singleEvents'' \<mapsto> JBool True, ''orderBy'' \<mapsto> JStr ''startTime'']"
    by (simp add: list_events_request_def ListEvents_parse_def sampleListArgs_def sampleGcal_def
          zString_def zNumberDefault_def zStringOptional_def zBooleanDefault_def
          zEnumDefault_def listParams_def truthy_def Let_def)
  have a: "sampleListArgs ''timeMin'' = None" "sampleListArgs ''timeMax'' = None"
    by (simp_all add: sampleListArgs_def)
  show ?thesis using list_events_request_keys [OF r] r a by blast
qed

section \<open>The colour of created events\<close>

lemma suggestColorId_range: "suggestColorId sm ds \<in> set colorIds"
  by (simp add: suggestColorId_def Let_def colorIds_def palette_def)

lemma eventColor_suggested:
  "\<not> truthy (colorId parsed) \<Longrightarrow> eventColor parsed = suggestColorId (summary parsed) (description parsed)"
  by (auto simp: eventColor_def truthy_def orDefault_def split: option.splits)

lemma eventColor_supplied:
  "colorId parsed = Some c \<Longrightarrow> c \<noteq> [] \<Longrightarrow> eventColor parsed = c"
  by (simp add: eventColor_def orDefault_def)

text \<open>
  Claim C10, as stated, fails: a colour id supplied by the caller is written to the event
  as it is, so an event can carry the id "12".
\<close>

theorem supplied_color_unchecked:
  "ev_colorId (createEventBody (sampleParsed\<lparr>colorId := Some ''12''\<rparr>)) \<notin> set colorIds"
  by (simp add: createEventBody_def eventColor_def orDefault_def sampleParsed_def colorIds_def
        palette_def)

text \<open>
  Claim C10, amended. \<open>suggestColorId\<close> always returns one of the ids "1" to "11", and
  when the caller supplies no colour id (or an empty one) the events built by
  \<open>create_event\<close> and \<open>create_recurring_event\<close> carry an id of that range.
\<close>

theorem suggested_color_in_palette:
  "suggestColorId sm ds \<in> set colorIds
   \<and> (\<not> truthy (colorId parsed) \<longrightarrow> ev_colorId (createEventBody parsed) \<in> set colorIds)
   \<and> (\<not> truthy (colorId rparsed) \<longrightarrow> ev_colorId (createRecurringEventBody rparsed) \<in> set colorIds)"
  by (simp add: createEventBody_def createRecurringEventBody_def eventColor_suggested
        suggestColorId_range)

theorem suggested_color_in_palette_witness:
  "\<not> truthy (colorId sampleParsed) \<and> \<not> truthy (colorId sampleRecurringParsed)
   \<and> ev_colorId (createEventBody sampleParsed) \<in> set colorIds
   \<and> ev_colorId (createRecurringEventBody sampleRecurringParsed) \<in> set colorIds"
proof -
  have a: "\<not> truthy (colorId sampleParsed)" "\<not> truthy (colorId sampleRecurringParsed)"
    by (simp_all add: truthy_def sampleParsed_def sampleRecurringParsed_def)
  show ?thesis
    using a suggested_color_in_palette [of "[]" None sampleParsed sampleRecurringParsed] by blast
qed

end
